theory Spec2Isabelle
  imports Main
begin

section \<open>Python values\<close>

text \<open>
  The fields of a task and the contents of the backing file are dynamically typed: a
  file written by hand can put any JSON value under any key, and \<open>Task.from_dict\<close>
  stores what it finds without looking at its type. The values are therefore modelled as
  the Python values that \<open>json.load\<close> produces, floats left out (their arithmetic and
  their printing are outside this development). A dict is an association list in
  insertion order, of which only the first binding of a key is visible. A \<open>str\<close> is a
  \<open>string\<close> holding its UTF-8 bytes.
\<close>

datatype pyval =
    PNone
  | PBool bool
  | PInt int
  | PStr string
  | PList "pyval list"
  | PDict "(string \<times> pyval) list"

text \<open>The exceptions that the modelled code lets escape to its caller.\<close>

datatype error = KeyError | TypeError | AttributeError

text \<open>\<open>d.get(key, default)\<close> on a dict.\<close>

definition dict_get :: "(string \<times> pyval) list \<Rightarrow> string \<Rightarrow> pyval \<Rightarrow> pyval" where
  "dict_get kvs k d = (case map_of kvs k of None \<Rightarrow> d | Some v \<Rightarrow> v)"

text \<open>
  \<open>v == s\<close> for a \<open>str\<close> \<open>s\<close>, and \<open>v == n\<close> for an \<open>int\<close> \<open>n\<close>. A \<open>bool\<close> is an
  \<open>int\<close> in Python: \<open>True == 1\<close> and \<open>False == 0\<close>.
\<close>

definition eq_str :: "pyval \<Rightarrow> string \<Rightarrow> bool" where
  "eq_str v s = (case v of PStr t \<Rightarrow> t = s | _ \<Rightarrow> False)"

definition eq_int :: "pyval \<Rightarrow> int \<Rightarrow> bool" where
  "eq_int v n = (case v of PInt m \<Rightarrow> m = n | PBool b \<Rightarrow> (if b then 1 else 0) = n | _ \<Rightarrow> False)"

text \<open>
  \<open>x += 1\<close>: defined on \<open>int\<close> and \<open>bool\<close>; on \<open>None\<close>, a \<open>str\<close>, a list or a dict
  it raises \<open>TypeError\<close>.
\<close>

definition add_one :: "pyval \<Rightarrow> error + pyval" where
  "add_one v = (case v of
       PInt n \<Rightarrow> Inr (PInt (n + 1))
     | PBool b \<Rightarrow> Inr (PInt ((if b then 1 else 0) + 1))
     | _ \<Rightarrow> Inl TypeError)"

section \<open>Strings\<close>

text \<open>
  \<open>str(n)\<close> for an \<open>int\<close>: the decimal digits, most significant first, after a minus
  sign when \<open>n\<close> is negative.
\<close>

definition digit_char :: "nat \<Rightarrow> char" where
  "digit_char d = ''0123456789'' ! d"

fun str_nat :: "nat \<Rightarrow> string" where
  "str_nat n = (if n < 10 then [digit_char n] else str_nat (n div 10) @ [digit_char (n mod 10)])"

declare str_nat.simps [simp del]

definition str_int :: "int \<Rightarrow> string" where
  "str_int n = (if n < 0 then CHR ''-'' # str_nat (nat (- n)) else str_nat (nat n))"

text \<open>
  The code calls three operations of the interpreter on strings whose result depends on
  the Unicode character tables: \<open>str.lower\<close> in \<open>get_task_by_title\<close>, \<open>int()\<close> in
  \<open>mark_task_completed\<close>, and \<open>repr()\<close>, which \<open>str()\<close> applies to the strings inside
  a list or a dict. They are not code of \<open>todo_list.py\<close>, and they are parameters here:
  the functions of \<open>todo_list.py\<close> that call them take a record \<open>py\<close> of these three
  operations, and what is proved below without a condition on \<open>py\<close> holds for every
  such record, so for the interpreter's own. \<open>py_int py s\<close> is \<open>None\<close> when \<open>int(s)\<close>
  raises \<open>ValueError\<close>.
\<close>

record builtins =
  lower :: "string \<Rightarrow> string"
  py_int :: "string \<Rightarrow> int option"
  repr_str :: "string \<Rightarrow> string"

text \<open>
  On a \<open>str\<close> of ASCII characters the three operations are given by finite tables, as
  follows; \<open>ascii_builtins\<close> is the record that the examples on ASCII strings are run
  with. It says nothing about a \<open>str\<close> that has a character outside ASCII.

  \<open>ascii_lower\<close>: \<open>A\<close> to \<open>Z\<close> become \<open>a\<close> to \<open>z\<close>.
\<close>

definition ascii_lower_char :: "char \<Rightarrow> char" where
  "ascii_lower_char c =
     (case map_of (zip ''ABCDEFGHIJKLMNOPQRSTUVWXYZ'' ''abcdefghijklmnopqrstuvwxyz'') c of
        None \<Rightarrow> c
      | Some l \<Rightarrow> l)"

definition ascii_lower :: "string \<Rightarrow> string" where
  "ascii_lower s = map ascii_lower_char s"

text \<open>
  \<open>ascii_int\<close>: \<open>int()\<close> strips the white space of ASCII (tab, line feed, vertical tab,
  form feed, carriage return, space) at both ends, takes an optional sign, and then wants
  decimal digits, where single underscores may stand between two digits. With the
  interpreter's default limit, a string with more than 4300 digits is a \<open>ValueError\<close>.
\<close>

definition is_space :: "char \<Rightarrow> bool" where
  "is_space c = (let n = (of_char c :: nat) in (9 \<le> n \<and> n \<le> 13) \<or> n = 32)"

definition is_digit :: "char \<Rightarrow> bool" where
  "is_digit c = (let n = (of_char c :: nat) in 48 \<le> n \<and> n \<le> 57)"

definition digit_val :: "char \<Rightarrow> nat" where
  "digit_val c = of_char c - 48"

definition strip :: "string \<Rightarrow> string" where
  "strip s = rev (dropWhile is_space (rev (dropWhile is_space s)))"

fun parse_digits :: "nat \<Rightarrow> string \<Rightarrow> nat option" where
  "parse_digits acc [] = Some acc"
| "parse_digits acc (c # cs) =
     (if is_digit c then parse_digits (acc * 10 + digit_val c) cs
      else if c = CHR ''_'' then
        (case cs of
           [] \<Rightarrow> None
         | d # ds \<Rightarrow> if is_digit d then parse_digits (acc * 10 + digit_val d) ds else None)
      else None)"

definition parse_nat :: "string \<Rightarrow> nat option" where
  "parse_nat s = (case s of
       [] \<Rightarrow> None
     | c # cs \<Rightarrow> if is_digit c then parse_digits (digit_val c) cs else None)"

definition max_str_digits :: nat where
  "max_str_digits = 4300"

definition ascii_int :: "string \<Rightarrow> int option" where
  "ascii_int s =
     (if max_str_digits < length (filter is_digit s) then None
      else case strip s of
          [] \<Rightarrow> None
        | c # cs \<Rightarrow>
            if c = CHR ''-'' then map_option (\<lambda>n. - int n) (parse_nat cs)
            else if c = CHR ''+'' then map_option int (parse_nat cs)
            else map_option int (parse_nat (c # cs)))"

text \<open>
  \<open>ascii_repr\<close>: double quotes are chosen when the string has a single quote and no
  double quote; the quote chosen and the backslash are escaped, tab, line feed and
  carriage return are written \<open>\t\<close>, \<open>\n\<close> and \<open>\r\<close>, and the other control characters
  as \<open>\x\<close> and two hexadecimal digits.
\<close>

definition hex_byte :: "nat \<Rightarrow> string" where
  "hex_byte n = [''0123456789abcdef'' ! (n div 16), ''0123456789abcdef'' ! (n mod 16)]"

definition ascii_repr_char :: "char \<Rightarrow> char \<Rightarrow> string" where
  "ascii_repr_char q c =
     (let n = (of_char c :: nat) in
      if c = q \<or> n = 92 then [CHR 0x5C, c]
      else if n = 9 then [CHR 0x5C, CHR ''t'']
      else if n = 10 then [CHR 0x5C, CHR ''n'']
      else if n = 13 then [CHR 0x5C, CHR ''r'']
      else if n < 32 \<or> n = 127 then [CHR 0x5C, CHR ''x''] @ hex_byte n
      else [c])"

definition ascii_repr :: "string \<Rightarrow> string" where
  "ascii_repr s =
     (let q = (if CHR 0x27 \<in> set s \<and> CHR 0x22 \<notin> set s then CHR 0x22 else CHR 0x27)
      in q # concat (map (ascii_repr_char q) s) @ [q])"

definition ascii_builtins :: builtins where
  "ascii_builtins = \<lparr>lower = ascii_lower, py_int = ascii_int, repr_str = ascii_repr\<rparr>"

text \<open>
  \<open>repr(v)\<close> and \<open>str(v)\<close>, which an f-string applies to the value it inserts.
\<close>

fun join :: "string \<Rightarrow> string list \<Rightarrow> string" where
  "join sep [] = []"
| "join sep [x] = x"
| "join sep (x # y # ys) = x @ sep @ join sep (y # ys)"

fun py_repr :: "builtins \<Rightarrow> pyval \<Rightarrow> string" where
  "py_repr py PNone = ''None''"
| "py_repr py (PBool b) = (if b then ''True'' else ''False'')"
| "py_repr py (PInt n) = str_int n"
| "py_repr py (PStr s) = repr_str py s"
| "py_repr py (PList xs) = ''['' @ join '', '' (map (py_repr py) xs) @ '']''"
| "py_repr py (PDict kvs) =
     ''{'' @ join '', ''
               (map (\<lambda>kv. repr_str py (fst kv) @ '': '' @ py_repr py (snd kv)) kvs) @ ''}''"

definition py_str :: "builtins \<Rightarrow> pyval \<Rightarrow> string" where
  "py_str py v = (case v of PStr s \<Rightarrow> s | _ \<Rightarrow> py_repr py v)"

section \<open>Task\<close>

text \<open>
  The class \<open>Task\<close> of \<open>todo_list.py\<close>. The field \<open>id\<close> is called \<open>task_id\<close> here.
  \<open>datetime.now().isoformat()\<close> is an input of the model: every function that reads the
  clock takes the string \<open>now\<close> that the clock gives at that call.
\<close>

record task =
  task_id :: pyval
  title :: pyval
  description :: pyval
  priority :: pyval
  due_date :: pyval
  status :: pyval
  created_at :: pyval
  completed_at :: pyval

text \<open>\<open>Task.__init__\<close>.\<close>

definition Task_init :: "pyval \<Rightarrow> pyval \<Rightarrow> pyval \<Rightarrow> pyval \<Rightarrow> string \<Rightarrow> task" where
  "Task_init ttl descr prio due now =
     \<lparr>task_id = PNone, title = ttl, description = descr, priority = prio, due_date = due,
      status = PStr ''pending'', created_at = PStr now, completed_at = PNone\<rparr>"

text \<open>\<open>Task.mark_completed\<close>.\<close>

definition mark_completed :: "string \<Rightarrow> task \<Rightarrow> task" where
  "mark_completed now t = t\<lparr>status := PStr ''completed'', completed_at := PStr now\<rparr>"

text \<open>\<open>Task.to_dict\<close>.\<close>

definition to_dict :: "task \<Rightarrow> pyval" where
  "to_dict t = PDict
     [(''id'', task_id t),
      (''title'', title t),
      (''description'', description t),
      (''priority'', priority t),
      (''due_date'', due_date t),
      (''status'', status t),
      (''created_at'', created_at t),
      (''completed_at'', completed_at t)]"

text \<open>
  \<open>Task.from_dict\<close>. \<open>data['title']\<close> is evaluated first: it raises \<open>KeyError\<close> on a
  dict without that key and \<open>TypeError\<close> on a value that is not a dict.
\<close>

definition from_dict :: "string \<Rightarrow> pyval \<Rightarrow> error + task" where
  "from_dict now data = (case data of
       PDict kvs \<Rightarrow>
         (case map_of kvs ''title'' of
            None \<Rightarrow> Inl KeyError
          | Some ttl \<Rightarrow>
              Inr ((Task_init ttl
                      (dict_get kvs ''description'' (PStr []))
                      (dict_get kvs ''priority'' (PStr ''medium''))
                      (dict_get kvs ''due_date'' PNone)
                      now)
                   \<lparr>task_id := dict_get kvs ''id'' PNone,
                    status := dict_get kvs ''status'' (PStr ''pending''),
                    created_at := dict_get kvs ''created_at'' (PStr now),
                    completed_at := dict_get kvs ''completed_at'' PNone\<rparr>))
     | _ \<Rightarrow> Inl TypeError)"

text \<open>
  \<open>Task.__str__\<close>. The glyphs are the UTF-8 bytes of U+2713 (check mark), U+25CB
  (white circle) and U+25CF (black circle). The lookup in the dict literal raises
  \<open>KeyError\<close> for a key that is not there and \<open>TypeError\<close> for a list or a dict, which
  cannot be hashed.
\<close>

definition check_mark :: string where
  "check_mark = [CHR 0xE2, CHR 0x9C, CHR 0x93]"

definition white_circle :: string where
  "white_circle = [CHR 0xE2, CHR 0x97, CHR 0x8B]"

definition black_circle :: string where
  "black_circle = [CHR 0xE2, CHR 0x97, CHR 0x8F]"

definition priority_symbol :: "pyval \<Rightarrow> error + string" where
  "priority_symbol p = (case p of
       PStr s \<Rightarrow>
         (case map_of
                 [(''low'', black_circle),
                  (''medium'', black_circle @ black_circle),
                  (''high'', black_circle @ black_circle @ black_circle)] s of
            None \<Rightarrow> Inl KeyError
          | Some g \<Rightarrow> Inr g)
     | PList _ \<Rightarrow> Inl TypeError
     | PDict _ \<Rightarrow> Inl TypeError
     | _ \<Rightarrow> Inl KeyError)"

definition task_str :: "builtins \<Rightarrow> task \<Rightarrow> error + string" where
  "task_str py t =
     (let status_symbol = (if eq_str (status t) ''completed'' then check_mark else white_circle)
      in case priority_symbol (priority t) of
           Inl e \<Rightarrow> Inl e
         | Inr g \<Rightarrow>
             Inr (status_symbol @ '' ['' @ py_str py (task_id t) @ ''] '' @ py_str py (title t)
                  @ '' '' @ g))"

section \<open>ToDoListManager\<close>

record manager =
  data_file :: string
  tasks :: "task list"
  next_id :: pyval

text \<open>
  The text of a file is represented by what \<open>json.load\<close> makes of it: a
  \<open>JSONDecodeError\<close>, or the value that the text denotes. \<open>json.dump\<close> writes a text
  that denotes the value it is given. The file system maps a path to the text of the file
  there, if there is one; writing is taken to succeed.
\<close>

datatype file_text = NotJson | Json pyval

type_synonym files = "string \<Rightarrow> file_text option"

text \<open>\<open>save_tasks\<close>.\<close>

definition save_tasks :: "manager \<Rightarrow> files \<Rightarrow> files" where
  "save_tasks m fs =
     (let data = PDict [(''next_id'', next_id m), (''tasks'', PList (map to_dict (tasks m)))]
      in fs(data_file m \<mapsto> Json data))"

text \<open>
  What a \<open>for\<close> loop receives from a value: the elements of a list, the keys of a dict,
  the characters of a \<open>str\<close> (here its bytes, each as a \<open>str\<close>); anything else raises
  \<open>TypeError\<close>.
\<close>

definition iterate :: "pyval \<Rightarrow> error + pyval list" where
  "iterate v = (case v of
       PList xs \<Rightarrow> Inr xs
     | PDict kvs \<Rightarrow> Inr (map (\<lambda>kv. PStr (fst kv)) kvs)
     | PStr s \<Rightarrow> Inr (map (\<lambda>c. PStr [c]) s)
     | _ \<Rightarrow> Inl TypeError)"

text \<open>A list comprehension whose body can raise: the first exception ends it.\<close>

fun comprehension :: "('a \<Rightarrow> error + 'b) \<Rightarrow> 'a list \<Rightarrow> error + 'b list" where
  "comprehension f [] = Inr []"
| "comprehension f (x # xs) =
     (case f x of
        Inl e \<Rightarrow> Inl e
      | Inr y \<Rightarrow> (case comprehension f xs of Inl e \<Rightarrow> Inl e | Inr ys \<Rightarrow> Inr (y # ys)))"

text \<open>
  \<open>load_tasks\<close>. The \<open>except\<close> clause names \<open>json.JSONDecodeError\<close> and \<open>KeyError\<close>:
  both give the fresh state, any other exception leaves the method. \<open>data.get\<close> raises
  \<open>AttributeError\<close> when \<open>data\<close> is not a dict.
\<close>

definition start_fresh :: "manager \<Rightarrow> manager" where
  "start_fresh m = m\<lparr>tasks := [], next_id := PInt 1\<rparr>"

definition except_corrupted :: "manager \<Rightarrow> error \<Rightarrow> error + manager" where
  "except_corrupted m e = (if e = KeyError then Inr (start_fresh m) else Inl e)"

definition load_tasks :: "string \<Rightarrow> manager \<Rightarrow> files \<Rightarrow> error + manager" where
  "load_tasks now m fs = (case fs (data_file m) of
       None \<Rightarrow> Inr m
     | Some NotJson \<Rightarrow> Inr (start_fresh m)
     | Some (Json data) \<Rightarrow>
         (case data of
            PDict kvs \<Rightarrow>
              (case iterate (dict_get kvs ''tasks'' (PList [])) of
                 Inl e \<Rightarrow> except_corrupted m e
               | Inr xs \<Rightarrow>
                   (case comprehension (from_dict now) xs of
                      Inl e \<Rightarrow> except_corrupted m e
                    | Inr ts \<Rightarrow>
                        Inr (m\<lparr>next_id := dict_get kvs ''next_id'' (PInt 1), tasks := ts\<rparr>)))
          | _ \<Rightarrow> Inl AttributeError))"

text \<open>\<open>ToDoListManager.__init__\<close>.\<close>

definition ToDoListManager_init :: "string \<Rightarrow> string \<Rightarrow> files \<Rightarrow> error + manager" where
  "ToDoListManager_init path now fs =
     load_tasks now \<lparr>data_file = path, tasks = [], next_id = PInt 1\<rparr> fs"

text \<open>
  \<open>add_task\<close>, with arguments of the types that its signature declares. When
  \<open>self.next_id += 1\<close> raises, the manager and the file are as they were.
\<close>

definition opt_str :: "string option \<Rightarrow> pyval" where
  "opt_str x = (case x of None \<Rightarrow> PNone | Some s \<Rightarrow> PStr s)"

definition add_task ::
  "string \<Rightarrow> string \<Rightarrow> string \<Rightarrow> string option \<Rightarrow> string \<Rightarrow> manager \<times> files
     \<Rightarrow> error + task \<times> manager \<times> files" where
  "add_task ttl descr prio due now w = (case w of (m, fs) \<Rightarrow>
     (let t = (Task_init (PStr ttl) (PStr descr) (PStr prio) (opt_str due) now)
                \<lparr>task_id := next_id m\<rparr>
      in case add_one (next_id m) of
           Inl e \<Rightarrow> Inl e
         | Inr n \<Rightarrow>
             (let m' = m\<lparr>next_id := n, tasks := tasks m @ [t]\<rparr>
              in Inr (t, m', save_tasks m' fs))))"

text \<open>
  \<open>list_tasks\<close> and \<open>count_tasks\<close>. \<open>if status_filter:\<close> tests the argument's truth
  value: \<open>None\<close> and the empty string are false.
\<close>

definition truthy :: "string option \<Rightarrow> bool" where
  "truthy x = (case x of None \<Rightarrow> False | Some s \<Rightarrow> s \<noteq> [])"

definition list_tasks :: "manager \<Rightarrow> string option \<Rightarrow> task list" where
  "list_tasks m status_filter =
     (if truthy status_filter
      then filter (\<lambda>t. eq_str (status t) (the status_filter)) (tasks m)
      else tasks m)"

definition count_tasks :: "manager \<Rightarrow> string option \<Rightarrow> nat" where
  "count_tasks m st =
     (if truthy st
      then length (filter (\<lambda>t. eq_str (status t) (the st)) (tasks m))
      else length (tasks m))"

definition is_empty :: "manager \<Rightarrow> bool" where
  "is_empty m = (length (tasks m) = 0)"

text \<open>
  \<open>get_task_by_id\<close> and \<open>get_task_by_title\<close>. A task object held by the manager is
  identified with its position in \<open>tasks\<close>: the functions return the position of the first
  task that matches. \<open>task.title.lower()\<close> raises \<open>AttributeError\<close> when the title is
  not a \<open>str\<close>.
\<close>

fun scan_id :: "int \<Rightarrow> task list \<Rightarrow> nat option" where
  "scan_id n [] = None"
| "scan_id n (t # ts) =
     (if eq_int (task_id t) n then Some 0 else map_option Suc (scan_id n ts))"

definition get_task_by_id :: "manager \<Rightarrow> int \<Rightarrow> nat option" where
  "get_task_by_id m n = scan_id n (tasks m)"

fun scan_title :: "builtins \<Rightarrow> string \<Rightarrow> task list \<Rightarrow> error + nat option" where
  "scan_title py s [] = Inr None"
| "scan_title py s (t # ts) =
     (case title t of
        PStr u \<Rightarrow>
          if lower py u = lower py s then Inr (Some 0)
          else (case scan_title py s ts of Inl e \<Rightarrow> Inl e | Inr r \<Rightarrow> Inr (map_option Suc r))
      | _ \<Rightarrow> Inl AttributeError)"

definition get_task_by_title :: "builtins \<Rightarrow> manager \<Rightarrow> string \<Rightarrow> error + nat option" where
  "get_task_by_title py m s = scan_title py s (tasks m)"

text \<open>
  The argument of \<open>mark_task_completed\<close> by the type that \<open>isinstance\<close> finds. A \<open>bool\<close>
  is an \<open>int\<close>: \<open>True\<close> is \<open>IntId 1\<close>. \<open>FloatId m e\<close> is the float \<open>m * 2 ^ e\<close>.
\<close>

datatype ident = IntId int | StrId string | NoneId | FloatId int int

text \<open>
  \<open>mark_task_completed\<close>: \<open>locate\<close> is the value of the variable \<open>task\<close> after the
  \<open>if\<close>/\<open>elif\<close> block.
\<close>

definition locate :: "builtins \<Rightarrow> manager \<Rightarrow> ident \<Rightarrow> error + nat option" where
  "locate py m identifier = (case identifier of
       IntId n \<Rightarrow> Inr (get_task_by_id m n)
     | StrId s \<Rightarrow>
         (case py_int py s of
            Some n \<Rightarrow> Inr (get_task_by_id m n)
          | None \<Rightarrow> get_task_by_title py m s)
     | _ \<Rightarrow> Inr None)"

definition mark_task_completed ::
  "builtins \<Rightarrow> ident \<Rightarrow> string \<Rightarrow> manager \<times> files
     \<Rightarrow> error + bool \<times> manager \<times> files" where
  "mark_task_completed py identifier now w = (case w of (m, fs) \<Rightarrow>
     (case locate py m identifier of
        Inl e \<Rightarrow> Inl e
      | Inr None \<Rightarrow> Inr (False, m, fs)
      | Inr (Some i) \<Rightarrow>
          (let m' = m\<lparr>tasks := (tasks m)[i := mark_completed now (tasks m ! i)]\<rparr>
           in Inr (True, m', save_tasks m' fs))))"

text \<open>\<open>clear_all_tasks\<close>.\<close>

definition clear_all_tasks :: "manager \<times> files \<Rightarrow> manager \<times> files" where
  "clear_all_tasks w = (case w of (m, fs) \<Rightarrow>
     (let m' = m\<lparr>tasks := [], next_id := PInt 1\<rparr> in (m', save_tasks m' fs)))"


section \<open>Sequences of operations\<close>

text \<open>
  A caller's session with the store: a list of calls, run in order from a manager and a
  file system. \<open>Reopen\<close> constructs a new manager on the same backing file. The run ends
  at the first exception.
\<close>

datatype op =
    Add string string string "string option" string
  | Complete ident string
  | Clear
  | Save
  | Reopen string

datatype outcome = Added task | Marked bool | Done

fun exec ::
  "builtins \<Rightarrow> op \<Rightarrow> manager \<times> files \<Rightarrow> error + outcome \<times> manager \<times> files" where
  "exec py (Add ttl descr prio due now) w =
     (case add_task ttl descr prio due now w of
        Inl e \<Rightarrow> Inl e
      | Inr (t, w') \<Rightarrow> Inr (Added t, w'))"
| "exec py (Complete i now) w =
     (case mark_task_completed py i now w of
        Inl e \<Rightarrow> Inl e
      | Inr (b, w') \<Rightarrow> Inr (Marked b, w'))"
| "exec py Clear w = Inr (Done, clear_all_tasks w)"
| "exec py Save w = Inr (Done, fst w, save_tasks (fst w) (snd w))"
| "exec py (Reopen now) w =
     (case ToDoListManager_init (data_file (fst w)) now (snd w) of
        Inl e \<Rightarrow> Inl e
      | Inr m \<Rightarrow> Inr (Done, m, snd w))"

fun run ::
  "builtins \<Rightarrow> op list \<Rightarrow> manager \<times> files
     \<Rightarrow> error + outcome list \<times> manager \<times> files" where
  "run py [] w = Inr ([], w)"
| "run py (x # xs) w =
     (case exec py x w of
        Inl e \<Rightarrow> Inl e
      | Inr (r, w') \<Rightarrow>
          (case run py xs w' of
             Inl e \<Rightarrow> Inl e
           | Inr (rs, w'') \<Rightarrow> Inr (r # rs, w'')))"

text \<open>The ids of the tasks that the \<open>add_task\<close> calls of a run returned, in order.\<close>

fun added_ids :: "outcome list \<Rightarrow> pyval list" where
  "added_ids [] = []"
| "added_ids (Added t # rs) = task_id t # added_ids rs"
| "added_ids (r # rs) = added_ids rs"

definition assigned_ids ::
  "builtins \<Rightarrow> op list \<Rightarrow> manager \<times> files \<Rightarrow> error + pyval list" where
  "assigned_ids py ops w = (case run py ops w of Inl e \<Rightarrow> Inl e | Inr (rs, w') \<Rightarrow> Inr (added_ids rs))"

text \<open>The manager that the constructor makes when there is nothing to load.\<close>

definition fresh :: "string \<Rightarrow> manager" where
  "fresh path = \<lparr>data_file = path, tasks = [], next_id = PInt 1\<rparr>"

section \<open>Properties of states\<close>

text \<open>The tasks held carry the ids 1, 2, ... in order, and the counter is the next one.\<close>

definition numbered :: "manager \<Rightarrow> bool" where
  "numbered m =
     (map task_id (tasks m) = map PInt [1 .. int (length (tasks m))]
      \<and> next_id m = PInt (int (length (tasks m)) + 1))"

text \<open>\<open>completed_at\<close> is set exactly when the status is \<open>completed\<close>.\<close>

definition completion_ok :: "task \<Rightarrow> bool" where
  "completion_ok t = ((completed_at t \<noteq> PNone) = eq_str (status t) ''completed'')"

definition is_str :: "pyval \<Rightarrow> bool" where
  "is_str v = (case v of PStr s \<Rightarrow> True | _ \<Rightarrow> False)"

text \<open>
  The backing file holds what the manager holds, or there is nothing to load and the
  manager is fresh.
\<close>

definition in_sync :: "manager \<times> files \<Rightarrow> bool" where
  "in_sync w = (case w of (m, fs) \<Rightarrow>
     (fs (data_file m) = save_tasks m fs (data_file m)
      \<or> ((fs (data_file m) = None \<or> fs (data_file m) = Some NotJson)
          \<and> m = fresh (data_file m))))"

definition sound :: "manager \<times> files \<Rightarrow> bool" where
  "sound w =
     (numbered (fst w) \<and> list_all completion_ok (tasks (fst w))
      \<and> list_all (\<lambda>t. is_str (title t)) (tasks (fst w)) \<and> in_sync w)"


section \<open>Positions in the task list\<close>

text \<open>
  \<open>first_with P xs i\<close>: position \<open>i\<close> holds the first element of \<open>xs\<close> that satisfies
  \<open>P\<close>. \<open>has_id\<close> and \<open>has_title\<close> are the tests of the two lookups.
\<close>

definition first_with :: "('a \<Rightarrow> bool) \<Rightarrow> 'a list \<Rightarrow> nat \<Rightarrow> bool" where
  "first_with P xs i = (i < length xs \<and> P (xs ! i) \<and> \<not> list_ex P (take i xs))"

definition has_id :: "int \<Rightarrow> task \<Rightarrow> bool" where
  "has_id n t = eq_int (task_id t) n"


text \<open>The calls of \<open>add_task\<close> in a session.\<close>

fun is_add :: "op \<Rightarrow> bool" where
  "is_add (Add ttl descr prio due now) = True"
| "is_add x = False"

section \<open>Saving and loading\<close>

lemma from_dict_to_dict: "from_dict now (to_dict t) = Inr t"
  by (simp add: from_dict_def to_dict_def dict_get_def Task_init_def)

lemma comprehension_from_dict: "comprehension (from_dict now) (map to_dict ts) = Inr ts"
  by (induction ts) (simp_all add: from_dict_to_dict)

lemma load_saved:
  "load_tasks now m (save_tasks m' fs) =
     (if data_file m = data_file m' then Inr (m\<lparr>next_id := next_id m', tasks := tasks m'\<rparr>)
      else load_tasks now m fs)"
  by (simp add: load_tasks_def save_tasks_def dict_get_def iterate_def comprehension_from_dict)

lemma load_absent: "fs (data_file m) = None \<Longrightarrow> load_tasks now m fs = Inr m"
  by (simp add: load_tasks_def)

lemma load_not_json:
  "fs (data_file m) = Some NotJson \<Longrightarrow> load_tasks now m fs = Inr (start_fresh m)"
  by (simp add: load_tasks_def)

text \<open>
  Claim C4. Saving and then constructing a manager on the same backing file gives the
  manager that was saved: the same tasks with all their fields, in the same order, and
  the same \<open>next_id\<close>. This holds for every state, whatever values the fields hold.
\<close>

theorem save_then_construct:
  "ToDoListManager_init (data_file m) now (save_tasks m fs) = Inr m"
  by (simp add: ToDoListManager_init_def load_saved)

theorem save_then_construct_witness:
  "ToDoListManager_init ''todo_list.json'' ''2024-05-02T08:00:00''
     (save_tasks
        \<lparr>data_file = ''todo_list.json'',
         tasks = [mark_completed ''2024-05-01T12:00:00''
                    ((Task_init (PStr ''Test task'') (PStr ''Test description'') (PStr ''high'')
                        PNone ''2024-05-01T10:00:00'') \<lparr>task_id := PInt 1\<rparr>)],
         next_id = PInt 2\<rparr>
        Map.empty)
   = Inr \<lparr>data_file = ''todo_list.json'',
          tasks = [\<lparr>task_id = PInt 1, title = PStr ''Test task'',
                    description = PStr ''Test description'', priority = PStr ''high'',
                    due_date = PNone, status = PStr ''completed'',
                    created_at = PStr ''2024-05-01T10:00:00'',
                    completed_at = PStr ''2024-05-01T12:00:00''\<rparr>],
          next_id = PInt 2\<rparr>"
  using save_then_construct
    [of "\<lparr>data_file = ''todo_list.json'',
         tasks = [mark_completed ''2024-05-01T12:00:00''
                    ((Task_init (PStr ''Test task'') (PStr ''Test description'') (PStr ''high'')
                        PNone ''2024-05-01T10:00:00'') \<lparr>task_id := PInt 1\<rparr>)],
         next_id = PInt 2\<rparr>" "''2024-05-02T08:00:00''" Map.empty]
  by (simp add: mark_completed_def Task_init_def)

text \<open>
  The two exceptions that the \<open>except\<close> clause names do give the fresh state: a text
  that is not JSON, and a task entry without a title.
\<close>

lemma construct_on_not_json_starts_fresh:
  "ToDoListManager_init ''todo_list.json'' ''2024-05-01T10:00:00''
     [''todo_list.json'' \<mapsto> NotJson] = Inr (fresh ''todo_list.json'')"
  by (simp add: ToDoListManager_init_def load_tasks_def start_fresh_def fresh_def)

lemma construct_on_untitled_task_starts_fresh:
  "ToDoListManager_init ''todo_list.json'' ''2024-05-01T10:00:00''
     [''todo_list.json'' \<mapsto>
        Json (PDict [(''next_id'', PInt 7),
                     (''tasks'', PList [PDict [(''description'', PStr ''no title'')]])])]
   = Inr (fresh ''todo_list.json'')"
  by (simp add: ToDoListManager_init_def load_tasks_def dict_get_def iterate_def from_dict_def
        except_corrupted_def start_fresh_def fresh_def)

text \<open>
  Claim C3, at a backing file that holds the JSON text \<open>[]\<close>: a list where the mapping
  with \<open>next_id\<close> and \<open>tasks\<close> is expected. \<open>json.load\<close> succeeds, \<open>data.get\<close> raises
  \<open>AttributeError\<close>, the \<open>except\<close> clause does not name it, and the constructor raises
  instead of starting with no tasks and \<open>next_id\<close> 1.
\<close>

theorem construct_on_list_document_raises:
  "ToDoListManager_init ''todo_list.json'' ''2024-05-01T10:00:00''
     [''todo_list.json'' \<mapsto> Json (PList [])] = Inl AttributeError"
  by (simp add: ToDoListManager_init_def load_tasks_def)

section \<open>Clearing\<close>

text \<open>
  Claim C5. \<open>clear_all_tasks\<close> leaves no task and \<open>next_id\<close> 1 and saves that state, so
  \<open>is_empty\<close> holds after it, and the next \<open>add_task\<close> succeeds and gives its task the
  id 1.
\<close>

theorem clear_then_empty:
  "is_empty (fst (clear_all_tasks w))
   \<and> tasks (fst (clear_all_tasks w)) = []
   \<and> next_id (fst (clear_all_tasks w)) = PInt 1
   \<and> snd (clear_all_tasks w) = save_tasks (fst (clear_all_tasks w)) (snd w)
   \<and> (\<exists>t w'. add_task ttl descr prio due now (clear_all_tasks w) = Inr (t, w')
         \<and> task_id t = PInt 1 \<and> tasks (fst w') = [t])"
  by (cases w) (simp add: clear_all_tasks_def is_empty_def add_task_def add_one_def Let_def)

section \<open>Listing and counting\<close>

text \<open>
  Claim C10. For every state and every status argument, \<open>None\<close> included,
  \<open>count_tasks\<close> is the length of what \<open>list_tasks\<close> returns for that argument.
\<close>

theorem count_is_length_of_list: "count_tasks m s = length (list_tasks m s)"
  by (simp add: count_tasks_def list_tasks_def)

section \<open>Marking a task completed\<close>

text \<open>
  Claim C9. An identifier that is neither an \<open>int\<close> nor a \<open>str\<close> (\<open>None\<close>, a float)
  makes \<open>mark_task_completed\<close> return \<open>False\<close> without an exception, and the tasks,
  \<open>next_id\<close> and the files are what they were.
\<close>

theorem other_identifier_is_no_match:
  assumes "\<forall>n. i \<noteq> IntId n" and "\<forall>s. i \<noteq> StrId s"
  shows "mark_task_completed py i now (m, fs) = Inr (False, m, fs)"
  using assms by (cases i) (simp_all add: mark_task_completed_def locate_def)

theorem other_identifier_is_no_match_witness:
  "mark_task_completed ascii_builtins NoneId ''2024-05-01T10:00:00'' (fresh ''todo_list.json'', Map.empty)
     = Inr (False, fresh ''todo_list.json'', Map.empty)
   \<and> mark_task_completed ascii_builtins (FloatId 3 (- 1)) ''2024-05-01T10:00:00''
       (fresh ''todo_list.json'', Map.empty)
     = Inr (False, fresh ''todo_list.json'', Map.empty)"
  using other_identifier_is_no_match [where i = NoneId and py = ascii_builtins]
    other_identifier_is_no_match [where i = "FloatId 3 (- 1)" and py = ascii_builtins]
  by simp


text \<open>
  Claim C6, at the filter \<open>""\<close>: it is a given value that is the status of no task, and
  \<open>list_tasks\<close> returns the pending task that the store holds, not the empty list.
\<close>

theorem list_empty_string_filter_returns_all:
  "list_tasks
     \<lparr>data_file = ''todo_list.json'',
      tasks = [\<lparr>task_id = PInt 1, title = PStr ''Buy groceries'', description = PStr [],
                priority = PStr ''medium'', due_date = PNone, status = PStr ''pending'',
                created_at = PStr ''2024-05-01T10:00:00'', completed_at = PNone\<rparr>],
      next_id = PInt 2\<rparr> (Some [])
   = [\<lparr>task_id = PInt 1, title = PStr ''Buy groceries'', description = PStr [],
       priority = PStr ''medium'', due_date = PNone, status = PStr ''pending'',
       created_at = PStr ''2024-05-01T10:00:00'', completed_at = PNone\<rparr>]"
  by (simp add: list_tasks_def truthy_def)

text \<open>
  Claim C6 as the code has it. For every state and every non-empty filter string,
  \<open>list_tasks\<close> returns, in insertion order, exactly the tasks whose status is that
  string, so a non-empty string that is the status of no task gives the empty list and no
  error. The empty string is false in \<open>if status_filter:\<close> and, like \<open>None\<close>, gives all
  tasks.
\<close>

theorem list_by_status:
  "(s \<noteq> [] \<longrightarrow> list_tasks m (Some s) = filter (\<lambda>t. status t = PStr s) (tasks m))
   \<and> (s \<noteq> [] \<and> \<not> list_ex (\<lambda>t. status t = PStr s) (tasks m) \<longrightarrow> list_tasks m (Some s) = [])
   \<and> list_tasks m (Some []) = tasks m
   \<and> list_tasks m None = tasks m"
proof -
  have eq: "\<And>t. eq_str (status t) s = (status t = PStr s)"
    by (auto simp: eq_str_def split: pyval.splits)
  have "\<not> list_ex (\<lambda>t. status t = PStr s) (tasks m) \<Longrightarrow> filter (\<lambda>t. status t = PStr s) (tasks m) = []"
    by (simp add: list_ex_iff filter_empty_conv)
  then show ?thesis
    by (simp add: list_tasks_def truthy_def eq)
qed

theorem list_by_status_witness:
  "list_tasks
     \<lparr>data_file = ''todo_list.json'',
      tasks = [mark_completed ''t3'' ((Task_init (PStr ''Task 1'') (PStr []) (PStr ''medium'') PNone ''t1'') \<lparr>task_id := PInt 1\<rparr>),
               (Task_init (PStr ''Task 2'') (PStr []) (PStr ''medium'') PNone ''t2'') \<lparr>task_id := PInt 2\<rparr>],
      next_id = PInt 3\<rparr> (Some ''pending'')
   = [(Task_init (PStr ''Task 2'') (PStr []) (PStr ''medium'') PNone ''t2'') \<lparr>task_id := PInt 2\<rparr>]
   \<and> list_tasks
     \<lparr>data_file = ''todo_list.json'',
      tasks = [mark_completed ''t3'' ((Task_init (PStr ''Task 1'') (PStr []) (PStr ''medium'') PNone ''t1'') \<lparr>task_id := PInt 1\<rparr>),
               (Task_init (PStr ''Task 2'') (PStr []) (PStr ''medium'') PNone ''t2'') \<lparr>task_id := PInt 2\<rparr>],
      next_id = PInt 3\<rparr> (Some ''archived'') = []"
  using list_by_status [of "''pending''" "\<lparr>data_file = ''todo_list.json'',
      tasks = [mark_completed ''t3'' ((Task_init (PStr ''Task 1'') (PStr []) (PStr ''medium'') PNone ''t1'') \<lparr>task_id := PInt 1\<rparr>),
               (Task_init (PStr ''Task 2'') (PStr []) (PStr ''medium'') PNone ''t2'') \<lparr>task_id := PInt 2\<rparr>],
      next_id = PInt 3\<rparr>"]
   list_by_status [of "''archived''" "\<lparr>data_file = ''todo_list.json'',
      tasks = [mark_completed ''t3'' ((Task_init (PStr ''Task 1'') (PStr []) (PStr ''medium'') PNone ''t1'') \<lparr>task_id := PInt 1\<rparr>),
               (Task_init (PStr ''Task 2'') (PStr []) (PStr ''medium'') PNone ''t2'') \<lparr>task_id := PInt 2\<rparr>],
      next_id = PInt 3\<rparr>"]
  by (simp add: mark_completed_def Task_init_def)

section \<open>The display form\<close>

lemma priority_symbol_cases:
  "priority_symbol p =
     (if p = PStr ''low'' then Inr (concat (replicate 1 black_circle))
      else if p = PStr ''medium'' then Inr (concat (replicate 2 black_circle))
      else if p = PStr ''high'' then Inr (concat (replicate 3 black_circle))
      else case p of PList xs \<Rightarrow> Inl TypeError | PDict kvs \<Rightarrow> Inl TypeError | _ \<Rightarrow> Inl KeyError)"
  by (cases p) (simp_all add: priority_symbol_def numeral_2_eq_2 numeral_3_eq_3)

text \<open>
  Claim C8. \<open>str(task)\<close> is the completion glyph, the id in brackets, the title and one,
  two or three priority glyphs for \<open>low\<close>, \<open>medium\<close> and \<open>high\<close>, separated by single
  spaces; it raises exactly when the priority is none of these three strings.
\<close>

theorem display_form:
  "(\<forall>k. (priority t, k) \<in> {(PStr ''low'', 1), (PStr ''medium'', 2), (PStr ''high'', 3)} \<longrightarrow>
      task_str py t =
        Inr ((if status t = PStr ''completed'' then check_mark else white_circle)
             @ '' ['' @ py_str py (task_id t) @ ''] '' @ py_str py (title t) @ '' ''
             @ concat (replicate k black_circle)))
   \<and> (isl (task_str py t) = (priority t \<notin> {PStr ''low'', PStr ''medium'', PStr ''high''}))"
proof -
  have eq: "eq_str (status t) ''completed'' = (status t = PStr ''completed'')"
    by (auto simp: eq_str_def split: pyval.splits)
  show ?thesis
    by (auto simp: task_str_def priority_symbol_cases eq split: pyval.splits)
qed

theorem display_form_witness:
  "task_str ascii_builtins \<lparr>task_id = PInt 12, title = PStr ''Test task'', description = PStr [],
             priority = PStr ''high'', due_date = PNone, status = PStr ''pending'',
             created_at = PStr ''2024-05-01T10:00:00'', completed_at = PNone\<rparr>
   = Inr (white_circle @ '' [12] Test task '' @ black_circle @ black_circle @ black_circle)
   \<and> isl (task_str ascii_builtins \<lparr>task_id = PInt 12, title = PStr ''Test task'', description = PStr [],
             priority = PStr ''urgent'', due_date = PNone, status = PStr ''pending'',
             created_at = PStr ''2024-05-01T10:00:00'', completed_at = PNone\<rparr>)"
  using display_form [where py = ascii_builtins and t = "\<lparr>task_id = PInt 12, title = PStr ''Test task'', description = PStr [],
             priority = PStr ''high'', due_date = PNone, status = PStr ''pending'',
             created_at = PStr ''2024-05-01T10:00:00'', completed_at = PNone\<rparr>"]
    display_form [where py = ascii_builtins and t = "\<lparr>task_id = PInt 12, title = PStr ''Test task'', description = PStr [],
             priority = PStr ''urgent'', due_date = PNone, status = PStr ''pending'',
             created_at = PStr ''2024-05-01T10:00:00'', completed_at = PNone\<rparr>"]
  by (simp add: py_str_def str_int_def str_nat.simps digit_char_def numeral_3_eq_3)

section \<open>Integers as strings\<close>

lemma digit_char_props:
  assumes "d < 10"
  shows "is_digit (digit_char d)" and "digit_val (digit_char d) = d"
    and "\<not> is_space (digit_char d)" and "digit_char d \<noteq> CHR ''-''" and "digit_char d \<noteq> CHR ''+''"
proof -
  from assms have "d \<in> {0, 1, 2, 3, 4, 5, 6, 7, 8, 9}" by auto
  then show "is_digit (digit_char d)" and "digit_val (digit_char d) = d"
    and "\<not> is_space (digit_char d)" and "digit_char d \<noteq> CHR ''-''" and "digit_char d \<noteq> CHR ''+''"
    by (auto simp: digit_char_def is_digit_def digit_val_def is_space_def)
qed

lemma parse_digits_snoc:
  "list_all is_digit ds \<Longrightarrow> is_digit c \<Longrightarrow>
   parse_digits acc (ds @ [c]) = map_option (\<lambda>v. v * 10 + digit_val c) (parse_digits acc ds)"
  by (induction ds arbitrary: acc) simp_all

lemma str_nat_digits: "list_all is_digit (str_nat n)"
proof (induction n rule: str_nat.induct)
  case (1 n)
  show ?case
  proof (cases "n < 10")
    case True
    then show ?thesis by (subst str_nat.simps) (simp add: digit_char_props)
  next
    case False
    with 1 show ?thesis by (subst str_nat.simps) (simp add: digit_char_props)
  qed
qed

lemma parse_digits_str_nat: "parse_digits 0 (str_nat n) = Some n"
proof (induction n rule: str_nat.induct)
  case (1 n)
  show ?case
  proof (cases "n < 10")
    case True
    then show ?thesis by (subst str_nat.simps) (simp add: digit_char_props)
  next
    case False
    with 1 have "parse_digits 0 (str_nat (n div 10)) = Some (n div 10)" by simp
    with False show ?thesis
      by (subst str_nat.simps) (simp add: parse_digits_snoc str_nat_digits digit_char_props)
  qed
qed

lemma str_nat_not_empty: "str_nat n \<noteq> []"
  by (subst str_nat.simps) simp

lemma parse_nat_digits: "s \<noteq> [] \<Longrightarrow> list_all is_digit s \<Longrightarrow> parse_nat s = parse_digits 0 s"
  by (cases s) (simp_all add: parse_nat_def)

lemma parse_nat_str_nat: "parse_nat (str_nat n) = Some n"
  by (simp add: parse_nat_digits str_nat_not_empty str_nat_digits parse_digits_str_nat)

lemma digit_not_space: "is_digit c \<Longrightarrow> \<not> is_space c"
  by (auto simp: is_digit_def is_space_def Let_def)

lemma digit_not_sign: "is_digit c \<Longrightarrow> c \<noteq> CHR ''-'' \<and> c \<noteq> CHR ''+''"
  by (auto simp: is_digit_def)

lemma strip_id: "s \<noteq> [] \<Longrightarrow> \<not> is_space (hd s) \<Longrightarrow> \<not> is_space (last s) \<Longrightarrow> strip s = s"
proof -
  assume a: "s \<noteq> []" "\<not> is_space (hd s)" "\<not> is_space (last s)"
  then have 1: "dropWhile is_space s = s" by (cases s) simp_all
  from a have "rev s \<noteq> []" "\<not> is_space (hd (rev s))" by (simp_all add: hd_rev)
  then have 2: "dropWhile is_space (rev s) = rev s" by (cases "rev s") simp_all
  show ?thesis by (simp add: strip_def 1 2)
qed

lemma str_nat_ends: "is_digit (hd (str_nat n)) \<and> is_digit (last (str_nat n))"
  using str_nat_digits [of n] str_nat_not_empty [of n]
  by (metis hd_in_set last_in_set list_all_iff)

lemma filter_digits: "list_all is_digit s \<Longrightarrow> filter is_digit s = s"
  by (induction s) simp_all

text \<open>
  \<open>int(str(n))\<close> is \<open>n\<close>: the decimal string of an \<open>int\<close> of at most 4300 digits is
  made of ASCII characters, and the ASCII table of \<open>int()\<close> parses it back.
\<close>

lemma ascii_int_str_int:
  assumes "length (str_nat (nat \<bar>n\<bar>)) \<le> max_str_digits"
  shows "ascii_int (str_int n) = Some n"
proof (cases "n < 0")
  case True
  then have k: "nat \<bar>n\<bar> = nat (- n)" by simp
  have nsp: "\<not> is_space CHR ''-''" by (simp add: is_space_def)
  have nd: "\<not> is_digit CHR ''-''" by (simp add: is_digit_def)
  have "filter is_digit (CHR ''-'' # str_nat (nat (- n))) = str_nat (nat (- n))"
    by (simp add: nd filter_digits str_nat_digits)
  with assms k have len:
    "\<not> max_str_digits < length (filter is_digit (CHR ''-'' # str_nat (nat (- n))))"
    by simp
  have "strip (CHR ''-'' # str_nat (nat (- n))) = CHR ''-'' # str_nat (nat (- n))"
    using str_nat_ends [of "nat (- n)"] str_nat_not_empty [of "nat (- n)"]
    by (intro strip_id) (simp_all add: nsp digit_not_space)
  with True len show ?thesis
    by (simp add: ascii_int_def str_int_def parse_nat_str_nat)
next
  case False
  then have k: "nat \<bar>n\<bar> = nat n" by simp
  obtain c cs where s: "str_nat (nat n) = c # cs"
    using str_nat_not_empty [of "nat n"] by (cases "str_nat (nat n)") auto
  have "filter is_digit (str_nat (nat n)) = str_nat (nat n)"
    by (simp add: filter_digits str_nat_digits)
  with assms k have len: "\<not> max_str_digits < length (filter is_digit (str_nat (nat n)))"
    by simp
  have st: "strip (str_nat (nat n)) = str_nat (nat n)"
    using str_nat_ends [of "nat n"] str_nat_not_empty [of "nat n"]
    by (intro strip_id) (simp_all add: digit_not_space)
  have c: "is_digit c" using str_nat_ends [of "nat n"] s by simp
  have "parse_nat (c # cs) = Some (nat n)" using parse_nat_str_nat [of "nat n"] s by simp
  with False c st len show ?thesis
    using digit_not_sign [OF c] by (simp add: ascii_int_def str_int_def s)
qed

lemma scan_id_Some:
  "(scan_id n ts = Some i) = first_with (has_id n) ts i"
proof (induction ts arbitrary: i)
  case Nil
  then show ?case by (simp add: first_with_def)
next
  case (Cons t ts)
  show ?case
  proof (cases "eq_int (task_id t) n")
    case True
    then show ?thesis by (cases i) (auto simp: first_with_def has_id_def)
  next
    case False
    then show ?thesis using Cons [of "i - 1"]
      by (cases i) (auto simp: first_with_def has_id_def)
  qed
qed





lemma scan_title_total:
  "list_all (\<lambda>t. is_str (title t)) ts \<Longrightarrow> \<exists>r. scan_title py s ts = Inr r"
  by (induction ts) (auto simp: is_str_def split: pyval.splits sum.splits)

lemma scan_id_bound: "scan_id n ts = Some i \<Longrightarrow> i < length ts"
  by (simp add: scan_id_Some first_with_def)

section \<open>Sessions keep the store sound\<close>

lemma eq_str_iff: "eq_str v s = (v = PStr s)"
  by (cases v) (simp_all add: eq_str_def)

lemma map_update_same: "f y = f (xs ! i) \<Longrightarrow> map f (xs[i := y]) = map f xs"
  by (induction xs arbitrary: i) (simp_all split: nat.splits)

lemma list_all_update: "list_all P xs \<Longrightarrow> P y \<Longrightarrow> list_all P (xs[i := y])"
  by (induction xs arbitrary: i) (simp_all split: nat.splits)

lemma scan_title_bound: "scan_title py s ts = Inr (Some i) \<Longrightarrow> i < length ts"
  by (induction ts arbitrary: i) (auto split: pyval.splits if_splits sum.splits)

lemma locate_bound: "locate py m x = Inr (Some i) \<Longrightarrow> i < length (tasks m)"
  by (cases x)
     (auto simp: locate_def get_task_by_id_def get_task_by_title_def
           dest: scan_id_bound scan_title_bound split: option.splits)

lemma locate_total:
  "list_all (\<lambda>t. is_str (title t)) (tasks m) \<Longrightarrow> \<exists>r. locate py m x = Inr r"
  using scan_title_total [of "tasks m" py]
  by (cases x) (auto simp: locate_def get_task_by_title_def split: option.splits)

lemma completion_ok_init: "completion_ok (Task_init a b c d now)"
  by (simp add: completion_ok_def Task_init_def eq_str_iff)

lemma completion_ok_marked: "completion_ok (mark_completed now t)"
  by (simp add: completion_ok_def mark_completed_def eq_str_iff)

lemma add_task_result:
  "add_task a b c d now (m, fs) = Inr (t, m', fs') \<Longrightarrow>
   t = (Task_init (PStr a) (PStr b) (PStr c) (opt_str d) now)\<lparr>task_id := next_id m\<rparr>
   \<and> tasks m' = tasks m @ [t] \<and> data_file m' = data_file m \<and> fs' = save_tasks m' fs"
  by (auto simp: add_task_def Let_def split: sum.splits)

lemma mark_task_completed_found:
  "locate py m x = Inr (Some i) \<Longrightarrow>
   mark_task_completed py x now (m, fs) =
     Inr (True, m\<lparr>tasks := (tasks m)[i := mark_completed now (tasks m ! i)]\<rparr>,
          save_tasks (m\<lparr>tasks := (tasks m)[i := mark_completed now (tasks m ! i)]\<rparr>) fs)"
  by (simp add: mark_task_completed_def Let_def)

lemma mark_task_completed_missing:
  "locate py m x = Inr None \<Longrightarrow> mark_task_completed py x now (m, fs) = Inr (False, m, fs)"
  by (simp add: mark_task_completed_def)

lemma save_tasks_twice: "save_tasks m (save_tasks m fs) = save_tasks m fs"
  by (simp add: save_tasks_def)

lemma in_sync_saved: "in_sync (m, save_tasks m fs)"
  by (simp add: in_sync_def save_tasks_twice)

lemma upto_snoc: "[1 .. int n + 1] = [1 .. int n] @ [int n + 1]"
  by (simp add: upto_rec2)

lemma upto_snoc': "[1 .. 1 + int n] = [1 .. int n] @ [int n + 1]"
  using upto_snoc [of n] by (simp add: add.commute)

lemma add_task_sound:
  assumes "sound (m, fs)"
  shows "\<exists>t m' fs'. add_task a b c d now (m, fs) = Inr (t, m', fs') \<and> sound (m', fs')
           \<and> task_id t = PInt (int (length (tasks m)) + 1)
           \<and> length (tasks m') = Suc (length (tasks m))"
proof -
  from assms have n: "numbered m" and c: "list_all completion_ok (tasks m)"
    and s: "list_all (\<lambda>t. is_str (title t)) (tasks m)"
    by (simp_all add: sound_def)
  let ?t = "(Task_init (PStr a) (PStr b) (PStr c) (opt_str d) now)\<lparr>task_id := next_id m\<rparr>"
  let ?m = "m\<lparr>next_id := PInt (int (length (tasks m)) + 1 + 1), tasks := tasks m @ [?t]\<rparr>"
  from n have nid: "next_id m = PInt (int (length (tasks m)) + 1)" by (simp add: numbered_def)
  then have run: "add_task a b c d now (m, fs) = Inr (?t, ?m, save_tasks ?m fs)"
    by (simp add: add_task_def add_one_def Let_def)
  have ok: "completion_ok ?t" by (simp add: completion_ok_def Task_init_def eq_str_iff)
  have st: "is_str (title ?t)" by (simp add: Task_init_def is_str_def)
  from n have num: "numbered ?m"
    by (simp add: numbered_def upto_snoc upto_snoc' nid)
  have "sound (?m, save_tasks ?m fs)"
    using num c s ok st by (simp add: sound_def in_sync_saved)
  with run nid show ?thesis by simp
qed

lemma mark_task_completed_sound:
  assumes "sound (m, fs)"
  shows "\<exists>b m' fs'. mark_task_completed py x now (m, fs) = Inr (b, m', fs') \<and> sound (m', fs')
           \<and> length (tasks m') = length (tasks m)"
proof -
  from assms have n: "numbered m" and c: "list_all completion_ok (tasks m)"
    and s: "list_all (\<lambda>t. is_str (title t)) (tasks m)"
    by (simp_all add: sound_def)
  from locate_total [OF s] obtain r where r: "locate py m x = Inr r" by blast
  show ?thesis
  proof (cases r)
    case None
    with r have "mark_task_completed py x now (m, fs) = Inr (False, m, fs)"
      by (simp add: mark_task_completed_missing)
    with assms show ?thesis by blast
  next
    case (Some i)
    let ?m = "m\<lparr>tasks := (tasks m)[i := mark_completed now (tasks m ! i)]\<rparr>"
    from r Some have run: "mark_task_completed py x now (m, fs) = Inr (True, ?m, save_tasks ?m fs)"
      by (simp add: mark_task_completed_found)
    from r Some have i: "i < length (tasks m)" by (simp add: locate_bound)
    have ids: "map task_id (tasks ?m) = map task_id (tasks m)"
      by (simp add: map_update_same mark_completed_def)
    with n have num: "numbered ?m" by (simp add: numbered_def)
    have c': "list_all completion_ok (tasks ?m)"
      using c by (simp add: list_all_update completion_ok_marked)
    from s i have "is_str (title (tasks m ! i))" by (simp add: list_all_length)
    then have s': "list_all (\<lambda>t. is_str (title t)) (tasks ?m)"
      using s by (simp add: list_all_update mark_completed_def)
    have "sound (?m, save_tasks ?m fs)"
      using num c' s' by (simp add: sound_def in_sync_saved)
    with run show ?thesis by auto
  qed
qed

lemma clear_all_tasks_sound: "sound (clear_all_tasks w)"
  by (cases w) (simp add: clear_all_tasks_def sound_def numbered_def in_sync_saved Let_def)

lemma save_tasks_sound: "sound (m, fs) \<Longrightarrow> sound (m, save_tasks m fs)"
  by (simp add: sound_def in_sync_saved)

lemma load_tasks_cong:
  "fs (data_file m) = fs' (data_file m) \<Longrightarrow> load_tasks now m fs = load_tasks now m fs'"
  by (simp add: load_tasks_def)

lemma reopen_in_sync:
  assumes "in_sync (m, fs)"
  shows "ToDoListManager_init (data_file m) now fs = Inr m"
proof -
  let ?m0 = "\<lparr>data_file = data_file m, tasks = [], next_id = PInt 1\<rparr>"
  show ?thesis
  proof (cases "fs (data_file m) = save_tasks m fs (data_file m)")
    case True
    then have "load_tasks now ?m0 fs = load_tasks now ?m0 (save_tasks m fs)"
      by (intro load_tasks_cong) simp
    then show ?thesis by (simp add: ToDoListManager_init_def load_saved)
  next
    case False
    with assms have f: "fs (data_file m) = None \<or> fs (data_file m) = Some NotJson"
      and m: "m = fresh (data_file m)" by (auto simp: in_sync_def)
    from f have "load_tasks now ?m0 fs = Inr ?m0"
      by (auto simp: load_absent load_not_json start_fresh_def)
    with m show ?thesis by (simp add: ToDoListManager_init_def fresh_def)
  qed
qed

lemma exec_sound:
  assumes "sound w"
  shows "\<exists>r w'. exec py x w = Inr (r, w') \<and> sound w'
           \<and> (case x of
                 Add ttl descr prio due now \<Rightarrow>
                   added_ids [r] = [PInt (int (length (tasks (fst w))) + 1)]
                   \<and> length (tasks (fst w')) = Suc (length (tasks (fst w)))
               | Clear \<Rightarrow> True
               | _ \<Rightarrow> added_ids [r] = [] \<and> length (tasks (fst w')) = length (tasks (fst w)))"
proof (cases w)
  case (Pair m fs)
  show ?thesis
  proof (cases x)
    case (Add a b c d now)
    from add_task_sound [of m fs a b c d now] assms Pair Add show ?thesis by auto
  next
    case (Complete i now)
    from mark_task_completed_sound [of m fs py i now] assms Pair Complete show ?thesis by auto
  next
    case Clear
    then show ?thesis by (simp add: clear_all_tasks_sound)
  next
    case Save
    with assms Pair show ?thesis by (simp add: save_tasks_sound)
  next
    case (Reopen now)
    from assms Pair have "in_sync (m, fs)" by (simp add: sound_def)
    then have "ToDoListManager_init (data_file m) now fs = Inr m" by (rule reopen_in_sync)
    with assms Pair Reopen show ?thesis by simp
  qed
qed

lemma run_sound: "sound w \<Longrightarrow> \<exists>rs w'. run py ops w = Inr (rs, w') \<and> sound w'"
proof (induction ops arbitrary: w)
  case Nil
  then show ?case by simp
next
  case (Cons x xs)
  from exec_sound [OF Cons.prems, where x = x and py = py] obtain r w1 where
    e: "exec py x w = Inr (r, w1)" and s: "sound w1" by blast
  from Cons.IH [OF s] obtain rs w2 where "run py xs w1 = Inr (rs, w2)" "sound w2" by blast
  with e show ?case by simp
qed

lemma added_ids_Cons: "added_ids (r # rs) = added_ids [r] @ added_ids rs"
  by (cases r) simp_all

lemma run_clear_free:
  "sound w \<Longrightarrow> list_all (\<lambda>x. x \<noteq> Clear) ops \<Longrightarrow> run py ops w = Inr (rs, w') \<Longrightarrow>
   added_ids rs = map PInt [int (length (tasks (fst w))) + 1 ..
                            int (length (tasks (fst w))) + int (length (filter is_add ops))]
   \<and> length (tasks (fst w')) = length (tasks (fst w)) + length (filter is_add ops)"
proof (induction ops arbitrary: w rs)
  case Nil
  then show ?case by simp
next
  case (Cons x xs)
  from exec_sound [OF Cons.prems(1), where x = x and py = py] obtain r w1 where
    e: "exec py x w = Inr (r, w1)" and s: "sound w1"
    and d: "case x of
                 Add ttl descr prio due now \<Rightarrow>
                   added_ids [r] = [PInt (int (length (tasks (fst w))) + 1)]
                   \<and> length (tasks (fst w1)) = Suc (length (tasks (fst w)))
               | Clear \<Rightarrow> True
               | _ \<Rightarrow> added_ids [r] = [] \<and> length (tasks (fst w1)) = length (tasks (fst w))"
    by blast
  from Cons.prems(3) e obtain rs1 where r1: "run py xs w1 = Inr (rs1, w')" and rs: "rs = r # rs1"
    by (auto split: sum.splits)
  from Cons.prems(2) have cf: "list_all (\<lambda>x. x \<noteq> Clear) xs" and nc: "x \<noteq> Clear" by simp_all
  note IH = Cons.IH [OF s cf r1]
  let ?n = "length (tasks (fst w))"
  let ?k = "length (filter is_add xs)"
  have split: "added_ids rs = added_ids [r] @ added_ids rs1"
    unfolding rs by (rule added_ids_Cons)
  show ?case
  proof (cases "is_add x")
    case True
    then obtain a b c d' now where x: "x = Add a b c d' now" by (cases x) simp_all
    with d have h: "added_ids [r] = [PInt (int ?n + 1)]"
      and l: "length (tasks (fst w1)) = Suc ?n" by simp_all
    have e1: "int (length (tasks (fst w1))) + 1 = int ?n + 1 + 1" using l by simp
    have e2: "int (length (tasks (fst w1))) + int ?k = int ?n + int (Suc ?k)" using l by simp
    from IH have ih: "added_ids rs1 = map PInt [int ?n + 1 + 1 .. int ?n + int (Suc ?k)]"
      by (simp only: e1 e2)
    have up: "[int ?n + 1 .. int ?n + int (Suc ?k)]
                = (int ?n + 1) # [int ?n + 1 + 1 .. int ?n + int (Suc ?k)]"
      by (rule upto_rec1) simp
    have len: "length (filter is_add (x # xs)) = Suc ?k" using True by simp
    have "added_ids rs = map PInt [int ?n + 1 .. int ?n + int (Suc ?k)]"
      unfolding split h ih up by simp
    moreover have "length (tasks (fst w')) = ?n + Suc ?k" using IH l by simp
    ultimately show ?thesis unfolding len by simp
  next
    case False
    with nc d have h: "added_ids [r] = []"
      and l: "length (tasks (fst w1)) = ?n" by (cases x; simp)+
    have len: "length (filter is_add (x # xs)) = ?k" using False by simp
    from IH show ?thesis unfolding split h len l by simp
  qed
qed

lemma fresh_start:
  "fs path = None \<or> fs path = Some NotJson \<Longrightarrow>
   ToDoListManager_init path now fs = Inr (fresh path) \<and> sound (fresh path, fs)"
  by (auto simp: ToDoListManager_init_def load_absent load_not_json start_fresh_def fresh_def
        sound_def numbered_def in_sync_def)

section \<open>Identifiers of tasks\<close>

text \<open>
  Claim C1, on a store that starts with no backing file: the session \<open>add\<close>, \<open>clear\<close>,
  \<open>add\<close> gives the id 1 to both tasks, so an id is assigned twice by one instance.
\<close>

theorem clear_restarts_ids:
  "assigned_ids ascii_builtins
     [Add ''Buy groceries'' [] ''medium'' None ''2024-05-01T10:00:00'',
      Clear,
      Add ''Pay bills'' [] ''medium'' None ''2024-05-01T10:05:00'']
     (fresh ''todo_list.json'', Map.empty)
   = Inr [PInt 1, PInt 1]"
  by (simp add: assigned_ids_def add_task_def add_one_def clear_all_tasks_def fresh_def Let_def)

text \<open>
  Claim C1 as the code has it. A store constructed on a backing file that is absent or
  is not JSON starts fresh, and every session from there runs without an exception and
  leaves the tasks held with the ids 1, 2, ..., n in insertion order and \<open>next_id\<close>
  \<open>n + 1\<close>: the ids held are strictly increasing from 1 without gaps and without
  repetition. In a session without \<open>clear\<close> the ids that the \<open>add_task\<close> calls return
  are 1, 2, ..., one per call. \<open>clear_all_tasks\<close> sets the counter back to 1, so ids
  are assigned again after it.
\<close>

theorem ids_count_up_from_one:
  assumes "fs path = None \<or> fs path = Some NotJson"
  shows "\<exists>m0 rs m fs'.
           ToDoListManager_init path now fs = Inr m0 \<and> run py ops (m0, fs) = Inr (rs, m, fs')
           \<and> map task_id (tasks m) = map PInt [1 .. int (length (tasks m))]
           \<and> next_id m = PInt (int (length (tasks m)) + 1)
           \<and> (list_all (\<lambda>x. x \<noteq> Clear) ops \<longrightarrow>
                added_ids rs = map PInt [1 .. int (length (filter is_add ops))])"
proof -
  from assms fresh_start [of fs path now] have i: "ToDoListManager_init path now fs = Inr (fresh path)"
    and s: "sound (fresh path, fs)" by simp_all
  from run_sound [OF s] obtain rs w' where r: "run py ops (fresh path, fs) = Inr (rs, w')"
    and s': "sound w'" by blast
  obtain m fs' where w': "w' = (m, fs')" by (cases w')
  from s' w' have n: "numbered m" by (simp add: sound_def)
  have "list_all (\<lambda>x. x \<noteq> Clear) ops \<longrightarrow>
          added_ids rs = map PInt [1 .. int (length (filter is_add ops))]"
    using run_clear_free [OF s _ r] by (simp add: fresh_def)
  with i r w' n show ?thesis by (simp add: numbered_def)
qed

theorem ids_count_up_from_one_witness:
  "Map.empty ''todo_list.json'' = (None :: file_text option)
   \<and> assigned_ids ascii_builtins
       [Add ''Buy groceries'' [] ''high'' None ''2024-05-01T10:00:00'',
        Add ''Pay bills'' [] ''medium'' None ''2024-05-01T10:01:00'',
        Complete (StrId ''buy groceries'') ''2024-05-01T10:02:00'',
        Add ''Call dentist'' [] ''low'' None ''2024-05-01T10:03:00'']
       (fresh ''todo_list.json'', Map.empty)
     = Inr [PInt 1, PInt 2, PInt 3]"
proof -
  let ?ops = "[Add ''Buy groceries'' [] ''high'' None ''2024-05-01T10:00:00'',
        Add ''Pay bills'' [] ''medium'' None ''2024-05-01T10:01:00'',
        Complete (StrId ''buy groceries'') ''2024-05-01T10:02:00'',
        Add ''Call dentist'' [] ''low'' None ''2024-05-01T10:03:00'']"
  have e: "Map.empty ''todo_list.json'' = (None :: file_text option)" by simp
  have i: "ToDoListManager_init ''todo_list.json'' ''2024-05-01T09:00:00'' Map.empty
             = Inr (fresh ''todo_list.json'')"
    by (simp add: ToDoListManager_init_def load_tasks_def fresh_def)
  from ids_count_up_from_one [where fs = Map.empty and path = "''todo_list.json''"
      and now = "''2024-05-01T09:00:00''" and ops = ?ops and py = ascii_builtins] e i
  obtain rs m fs' where "run ascii_builtins ?ops (fresh ''todo_list.json'', Map.empty) = Inr (rs, m, fs')"
    and "added_ids rs = map PInt [1 .. 3]"
    by auto
  then have "assigned_ids ascii_builtins ?ops (fresh ''todo_list.json'', Map.empty) = Inr (map PInt [1 .. 3])"
    by (simp add: assigned_ids_def)
  moreover have "[1 .. 3 :: int] = [1, 2, 3]" by (simp add: upto.simps)
  ultimately show ?thesis by simp
qed

section \<open>Which task an identifier names\<close>











section \<open>Completion time and status\<close>

lemma add_task_keeps_completion:
  "list_all completion_ok (tasks m) \<Longrightarrow> add_task ttl descr prio due now (m, fs) = Inr (t, m', fs')
   \<Longrightarrow> list_all completion_ok (tasks m')"
  by (auto simp: add_task_def Let_def completion_ok_def Task_init_def eq_str_iff
        split: sum.splits)

lemma mark_task_completed_keeps_completion:
  assumes "list_all completion_ok (tasks m)"
    and "mark_task_completed py x now (m, fs) = Inr (r, m', fs')"
  shows "list_all completion_ok (tasks m')"
proof (cases "locate py m x")
  case (Inl e)
  with assms(2) show ?thesis by (simp add: mark_task_completed_def)
next
  case (Inr found)
  show ?thesis
  proof (cases found)
    case None
    with Inr assms show ?thesis by (simp add: mark_task_completed_missing)
  next
    case (Some i)
    with Inr assms(2) have "tasks m' = (tasks m)[i := mark_completed now (tasks m ! i)]"
      by (auto simp: mark_task_completed_found)
    with assms(1) show ?thesis by (simp add: list_all_update completion_ok_marked)
  qed
qed

lemma clear_all_tasks_completion: "list_all completion_ok (tasks (fst (clear_all_tasks w)))"
  by (cases w) (simp add: clear_all_tasks_def Let_def)

lemma run_keeps_completion:
  assumes "fs path = None \<or> fs path = Some NotJson"
  shows "\<exists>m0 rs m1 fs1. ToDoListManager_init path now fs = Inr m0
           \<and> run py ops (m0, fs) = Inr (rs, m1, fs1) \<and> list_all completion_ok (tasks m1)"
proof -
  from assms fresh_start [of fs path now]
  have i: "ToDoListManager_init path now fs = Inr (fresh path)"
    and s: "sound (fresh path, fs)" by simp_all
  from run_sound [OF s] obtain rs w' where r: "run py ops (fresh path, fs) = Inr (rs, w')"
    and s': "sound w'" by blast
  obtain m1 fs1 where w': "w' = (m1, fs1)" by (cases w')
  from s' w' have "list_all completion_ok (tasks m1)" by (simp add: sound_def)
  with i r w' show ?thesis by blast
qed

text \<open>
  Claim C7. A task has a \<open>completed_at\<close> exactly when its status is \<open>completed\<close>: a
  task is constructed so, \<open>Task.mark_completed\<close> leaves it so, and \<open>add_task\<close>,
  \<open>mark_task_completed\<close>, \<open>clear_all_tasks\<close> and saving followed by loading keep it
  for all the tasks held. Hence it holds for every task of every store that a session
  reaches from a store constructed on an absent or unparsable backing file, and such a
  session never raises.
\<close>

theorem completed_at_iff_completed:
  "completion_ok (Task_init ttl descr prio due now)
   \<and> completion_ok (mark_completed now t)
   \<and> (list_all completion_ok (tasks m) \<and> add_task a b c d now (m, fs) = Inr (t', m', fs')
        \<longrightarrow> list_all completion_ok (tasks m'))
   \<and> (list_all completion_ok (tasks m) \<and> mark_task_completed py x now (m, fs) = Inr (r, m', fs')
        \<longrightarrow> list_all completion_ok (tasks m'))
   \<and> list_all completion_ok (tasks (fst (clear_all_tasks (m, fs))))
   \<and> (list_all completion_ok (tasks m) \<longrightarrow>
        (\<exists>m2. ToDoListManager_init (data_file m) now (save_tasks m fs) = Inr m2
           \<and> list_all completion_ok (tasks m2)))
   \<and> (fs path = None \<or> fs path = Some NotJson \<longrightarrow>
        (\<exists>m0 rs m1 fs1. ToDoListManager_init path now fs = Inr m0
           \<and> run py ops (m0, fs) = Inr (rs, m1, fs1) \<and> list_all completion_ok (tasks m1)))"
proof -
  have 1: "list_all completion_ok (tasks m) \<and> add_task a b c d now (m, fs) = Inr (t', m', fs')
        \<longrightarrow> list_all completion_ok (tasks m')"
    by (auto intro: add_task_keeps_completion)
  have 2: "list_all completion_ok (tasks m) \<and> mark_task_completed py x now (m, fs) = Inr (r, m', fs')
        \<longrightarrow> list_all completion_ok (tasks m')"
    by (auto intro: mark_task_completed_keeps_completion)
  have 3: "list_all completion_ok (tasks m) \<longrightarrow>
        (\<exists>m2. ToDoListManager_init (data_file m) now (save_tasks m fs) = Inr m2
           \<and> list_all completion_ok (tasks m2))"
    by (simp add: ToDoListManager_init_def load_saved)
  have 4: "fs path = None \<or> fs path = Some NotJson \<longrightarrow>
        (\<exists>m0 rs m1 fs1. ToDoListManager_init path now fs = Inr m0
           \<and> run py ops (m0, fs) = Inr (rs, m1, fs1) \<and> list_all completion_ok (tasks m1))"
    by (rule impI) (rule run_keeps_completion)
  from 1 2 3 4 show ?thesis
    by (simp add: completion_ok_init completion_ok_marked clear_all_tasks_completion)
qed

theorem completed_at_iff_completed_witness:
  "Map.empty ''todo_list.json'' = (None :: file_text option)
   \<and> (case run ascii_builtins [Add ''Buy groceries'' [] ''medium'' None ''2024-05-01T10:00:00'',
                 Add ''Pay bills'' [] ''medium'' None ''2024-05-01T10:01:00'',
                 Complete (IntId 2) ''2024-05-01T10:02:00'',
                 Reopen ''2024-05-02T08:00:00'']
                (fresh ''todo_list.json'', Map.empty) of
         Inl e \<Rightarrow> False
       | Inr (rs, m, fs) \<Rightarrow> list_all completion_ok (tasks m))"
proof -
  let ?ops = "[Add ''Buy groceries'' [] ''medium'' None ''2024-05-01T10:00:00'',
                 Add ''Pay bills'' [] ''medium'' None ''2024-05-01T10:01:00'',
                 Complete (IntId 2) ''2024-05-01T10:02:00'',
                 Reopen ''2024-05-02T08:00:00'']"
  have e: "Map.empty ''todo_list.json'' = (None :: file_text option)" by simp
  have i: "ToDoListManager_init ''todo_list.json'' ''2024-05-01T09:00:00'' Map.empty
             = Inr (fresh ''todo_list.json'')"
    by (simp add: ToDoListManager_init_def load_tasks_def fresh_def)
  note all = completed_at_iff_completed
    [where fs = Map.empty and path = "''todo_list.json''" and now = "''2024-05-01T09:00:00''"
       and ops = ?ops and py = ascii_builtins]
  note last = all [THEN conjunct2, THEN conjunct2, THEN conjunct2, THEN conjunct2,
    THEN conjunct2, THEN conjunct2]
  from e have "Map.empty ''todo_list.json'' = (None :: file_text option)
                 \<or> Map.empty ''todo_list.json'' = Some NotJson" by (rule disjI1)
  with last have "\<exists>m0 rs m1 fs1.
      ToDoListManager_init ''todo_list.json'' ''2024-05-01T09:00:00'' Map.empty = Inr m0
      \<and> run ascii_builtins ?ops (m0, Map.empty) = Inr (rs, m1, fs1)
      \<and> list_all completion_ok (tasks m1)"
    by (rule mp)
  then obtain m0 rs m1 fs1 where
    "ToDoListManager_init ''todo_list.json'' ''2024-05-01T09:00:00'' Map.empty = Inr m0"
    and r: "run ascii_builtins ?ops (m0, Map.empty) = Inr (rs, m1, fs1)"
    and c: "list_all completion_ok (tasks m1)" by blast
  with i have "m0 = fresh ''todo_list.json''" by simp
  with r have "run ascii_builtins ?ops (fresh ''todo_list.json'', Map.empty) = Inr (rs, m1, fs1)" by simp
  then have "(case run ascii_builtins ?ops (fresh ''todo_list.json'', Map.empty) of
         Inl e \<Rightarrow> False
       | Inr (rs, m, fs) \<Rightarrow> list_all completion_ok (tasks m))"
    using c by (simp only: sum.case prod.case)
  with e show ?thesis by (rule conjI)
qed

end
